theory Spec2Isabelle
  imports Complex_Main "HOL-Library.Char_ord" "HOL-Library.List_Lexorder" "HOL-Library.AList"
begin

section \<open>Python values used by callbacks.py\<close>

text \<open>
  A Python \<open>dict\<close> keeps its keys in insertion order and holds each key once. It is an
  association list here; \<open>distinct (map fst d)\<close> is the invariant of the type and appears
  as a hypothesis where a theorem needs it. \<open>d[k]\<close> is \<open>getitem\<close>, \<open>d.keys()\<close> is
  \<open>map fst d\<close>, \<open>d.values()\<close> is \<open>map snd d\<close>, \<open>d[k] = v\<close> is \<open>AList.update k v d\<close>
  (in place for an old key, appended for a new one).

  Strings are byte strings. Python compares \<open>str\<close> by code point; on UTF-8 text that is
  the byte-wise lexicographic order of \<open>HOL-Library.List_Lexorder\<close> over
  \<open>HOL-Library.Char_ord\<close>.
\<close>

datatype error = KeyError | ValueError | ZeroDivisionError | UnboundLocalError | TypeError

type_synonym ('k, 'v) dict = "('k \<times> 'v) list"

definition getitem :: "('k, 'v) dict \<Rightarrow> 'k \<Rightarrow> error + 'v" where
  "getitem d k = (case map_of d k of None \<Rightarrow> Inl KeyError | Some v \<Rightarrow> Inr v)"

text \<open>\<open>max(xs)\<close>: ValueError on an empty sequence; the first of several maximal items wins,
  since the running maximum is replaced only by a strictly greater item.\<close>

fun max_from :: "'a::linorder \<Rightarrow> 'a list \<Rightarrow> 'a" where
  "max_from m [] = m"
| "max_from m (x # xs) = max_from (if m < x then x else m) xs"

definition py_max :: "'a::linorder list \<Rightarrow> error + 'a" where
  "py_max xs = (case xs of [] \<Rightarrow> Inl ValueError | x # ys \<Rightarrow> Inr (max_from x ys))"

text \<open>\<open>max(xs, key=f)\<close>: \<open>f\<close> is called on each item in turn and may raise.\<close>

fun max_key_from :: "('a \<Rightarrow> error + 'b::linorder) \<Rightarrow> 'a \<Rightarrow> 'b \<Rightarrow> 'a list \<Rightarrow> error + 'a" where
  "max_key_from f m fm [] = Inr m"
| "max_key_from f m fm (x # xs) =
     (case f x of
        Inl e \<Rightarrow> Inl e
      | Inr fx \<Rightarrow> if fm < fx then max_key_from f x fx xs else max_key_from f m fm xs)"

definition py_max_key :: "('a \<Rightarrow> error + 'b::linorder) \<Rightarrow> 'a list \<Rightarrow> error + 'a" where
  "py_max_key f xs =
     (case xs of
        [] \<Rightarrow> Inl ValueError
      | x # ys \<Rightarrow> (case f x of Inl e \<Rightarrow> Inl e | Inr fx \<Rightarrow> max_key_from f x fx ys))"

text \<open>The character of a decimal digit \<open>n < 10\<close>.\<close>

definition digit_char :: "nat \<Rightarrow> char" where
  "digit_char n = ''0123456789'' ! n"

text \<open>\<open>str(n)\<close> for an \<open>int\<close>.\<close>

fun str_nat :: "nat \<Rightarrow> string" where
  "str_nat n = (if n < 10 then [digit_char n] else str_nat (n div 10) @ [digit_char (n mod 10)])"

declare str_nat.simps [simp del]

definition str_int :: "int \<Rightarrow> string" where
  "str_int i = (if i < 0 then CHR ''-'' # str_nat (nat (- i)) else str_nat (nat i))"

text \<open>
  Python floats are modelled by exact rationals: \<open>a / b\<close> is the rational quotient and
  \<open>round(q, ndigits=2)\<close> rounds it to the nearest hundredth, ties to the even hundredth.
  Binary rounding of the quotient, and the sign of a zero, are not represented.
\<close>

definition round_half_even :: "rat \<Rightarrow> int" where
  "round_half_even q =
     (let f = \<lfloor>q\<rfloor>; r = q - of_int f
      in if r < 1 / 2 then f else if 1 / 2 < r then f + 1 else if even f then f else f + 1)"

definition round2 :: "rat \<Rightarrow> rat" where
  "round2 q = of_int (round_half_even (q * 100)) / 100"

text \<open>\<open>f"{q:.2f}"\<close>: the value rounded to two decimals, printed with both of them.\<close>

definition format_2f :: "rat \<Rightarrow> string" where
  "format_2f q =
     (let n = round_half_even (q * 100); m = nat \<bar>n\<bar>
      in (if n < 0 then ''-'' else '''') @ str_nat (m div 100) @ ''.''
         @ [digit_char (m mod 100 div 10), digit_char (m mod 10)])"

section \<open>The data model\<close>

text \<open>
  \<open>descriptive_data\<close>: timestamp \<open>\<mapsto>\<close> snapshot; a snapshot: organisation \<open>\<mapsto>\<close> record with the
  keys \<open>sample_size\<close>, \<open>country\<close> and \<open>variable_info\<close>, each of which may be absent
  (\<open>None\<close>). An entry of \<open>variable_info\<close> is read with \<open>.get\<close> only, so each of its four
  keys may be absent as well.
\<close>

record local_variable_info =
  main_class :: "string option"
  main_class_count :: "int option"
  sub_class :: "string option"
  sub_class_count :: "int option"

record organisation_data =
  sample_size :: "int option"
  country :: "string option"
  variable_info :: "local_variable_info list option"

type_synonym snapshot = "(string, organisation_data) dict"
type_synonym descriptive_data = "(string, snapshot) dict"

datatype field_value = IntV int | StrV string | ListV "local_variable_info list"

text \<open>\<open>data[field_name]\<close> on an organisation record.\<close>

definition data_field :: "organisation_data \<Rightarrow> string \<Rightarrow> error + field_value" where
  "data_field data field_name =
     (if field_name = ''sample_size'' then
        (case sample_size data of None \<Rightarrow> Inl KeyError | Some n \<Rightarrow> Inr (IntV n))
      else if field_name = ''country'' then
        (case country data of None \<Rightarrow> Inl KeyError | Some c \<Rightarrow> Inr (StrV c))
      else if field_name = ''variable_info'' then
        (case variable_info data of None \<Rightarrow> Inl KeyError | Some v \<Rightarrow> Inr (ListV v))
      else Inl KeyError)"

text \<open>\<open>[f(x) for x in xs]\<close> where \<open>f\<close> may raise: the first failure ends the loop.\<close>

fun map_raise :: "('a \<Rightarrow> error + 'b) \<Rightarrow> 'a list \<Rightarrow> error + 'b list" where
  "map_raise f [] = Inr []"
| "map_raise f (x # xs) =
     (case f x of
        Inl e \<Rightarrow> Inl e
      | Inr y \<Rightarrow> (case map_raise f xs of Inl e \<Rightarrow> Inl e | Inr ys \<Rightarrow> Inr (y # ys)))"

text \<open>\<open>int(data["sample_size"])\<close>.\<close>

definition sample_size_of :: "organisation_data \<Rightarrow> error + int" where
  "sample_size_of data = (case sample_size data of None \<Rightarrow> Inl KeyError | Some n \<Rightarrow> Inr n)"

text \<open>\<open>descriptive_data[max(descriptive_data.keys())]\<close>.\<close>

definition latest_data :: "descriptive_data \<Rightarrow> error + snapshot" where
  "latest_data descriptive_data =
     (case py_max (map fst descriptive_data) of
        Inl e \<Rightarrow> Inl e
      | Inr k \<Rightarrow> getitem descriptive_data k)"

section \<open>Summary scalars\<close>

datatype html = Text string | Br

text \<open>An element of the set comprehension must be hashable: a list raises TypeError.\<close>

definition hashable_field :: "string \<Rightarrow> organisation_data \<Rightarrow> error + field_value" where
  "hashable_field field_name data =
     (case data_field data field_name of
        Inl e \<Rightarrow> Inl e
      | Inr (ListV v) \<Rightarrow> Inl TypeError
      | Inr v \<Rightarrow> Inr v)"

definition fetch_field_count :: "descriptive_data \<Rightarrow> string \<Rightarrow> string \<Rightarrow> error + html list option" where
  "fetch_field_count descriptive_data field_name text =
     (if descriptive_data \<noteq> [] then
        (case latest_data descriptive_data of
           Inl e \<Rightarrow> Inl e
         | Inr latest \<Rightarrow>
             (case map_raise (hashable_field field_name) (map snd latest) of
                Inl e \<Rightarrow> Inl e
              | Inr vs \<Rightarrow>
                  (let num_countries = length (remdups vs)
                   in Inr (Some [Text (str_nat num_countries), Br,
                                 Text (text @ (if num_countries > 1 then ''ies'' else ''y''))]))))
      else Inr None)"

definition fetch_number_of_keys :: "descriptive_data \<Rightarrow> string \<Rightarrow> error + html list option" where
  "fetch_number_of_keys descriptive_data text =
     (if descriptive_data \<noteq> [] then
        (case latest_data descriptive_data of
           Inl e \<Rightarrow> Inl e
         | Inr latest \<Rightarrow>
             Inr (Some [Text (str_nat (length latest)), Br,
                        Text (text @ (if length latest > 1 then ''s'' else ''''))]))
      else Inr None)"

definition fetch_total_sample_size :: "descriptive_data \<Rightarrow> string \<Rightarrow> error + html list option" where
  "fetch_total_sample_size descriptive_data text =
     (if descriptive_data \<noteq> [] then
        (case latest_data descriptive_data of
           Inl e \<Rightarrow> Inl e
         | Inr latest \<Rightarrow>
             (case map_raise sample_size_of (map snd latest) of
                Inl e \<Rightarrow> Inl e
              | Inr sizes \<Rightarrow>
                  (let num_patients = sum_list sizes
                   in Inr (Some [Text (str_int num_patients), Br,
                                 Text (text @ (if num_patients > 1 then ''s'' else ''''))]))))
      else Inr None)"

section \<open>Horizontal bar chart\<close>

text \<open>
  One trace per organisation and one annotation per organisation; the constant entries of
  the figure (\<open>type\<close>, \<open>orientation\<close>, \<open>marker\<close>, axis and legend options) are left out.
\<close>

record bar_trace =
  bar_x :: "rat list"
  bar_y :: "string list"
  bar_name :: string
  bar_hovertemplate :: string

record annotation =
  ann_x :: rat
  ann_y :: int
  ann_text :: string

record bar_figure =
  bar_data :: "bar_trace list"
  bar_title :: string
  bar_annotations :: "annotation list"

text \<open>\<open>[round(size / total_sample_size, ndigits=2) for size in sample_sizes]\<close>.\<close>

definition proportion :: "int \<Rightarrow> int \<Rightarrow> error + rat" where
  "proportion total_sample_size sz =
     (if total_sample_size = 0 then Inl ZeroDivisionError
      else Inr (round2 (of_int sz / of_int total_sample_size)))"

text \<open>
  \<open>sample_sizes\<close> and \<open>proportions\<close> follow \<open>latest_data.values()\<close>, \<open>organisations\<close> is
  \<open>sorted(latest_data.keys())\<close>; the three lists have one length, so every index below
  is in range.
\<close>

definition bar_trace_of :: "string \<Rightarrow> int list \<Rightarrow> rat list \<Rightarrow> nat \<Rightarrow> string \<Rightarrow> bar_trace" where
  "bar_trace_of text sample_sizes proportions i org =
     \<lparr>bar_x = [proportions ! i],
      bar_y = [''Number of '' @ text @ ''s per organisation''],
      bar_name = org,
      bar_hovertemplate =
        org @ '' has made data of '' @ str_int (sample_sizes ! i) @ '' '' @ text
        @ (if sample_sizes ! i > 1 then ''s'' else '''') @ '' available, which is ''
        @ format_2f (proportions ! i * 100) @ ''% of all available '' @ text @ '' data.''\<rparr>"

definition annotation_of :: "int list \<Rightarrow> rat list \<Rightarrow> nat \<Rightarrow> annotation" where
  "annotation_of sample_sizes proportions i =
     \<lparr>ann_x = sum_list (take (i + 1) proportions) - proportions ! i / 2,
      ann_y = 0,
      ann_text = str_int (sample_sizes ! i)\<rparr>"

definition generate_sample_size_horizontal_bar ::
  "descriptive_data \<Rightarrow> string \<Rightarrow> error + bar_figure option" where
  "generate_sample_size_horizontal_bar descriptive_data text =
     (if descriptive_data \<noteq> [] then
        (case latest_data descriptive_data of
           Inl e \<Rightarrow> Inl e
         | Inr latest \<Rightarrow>
             (case map_raise sample_size_of (map snd latest) of
                Inl e \<Rightarrow> Inl e
              | Inr sample_sizes \<Rightarrow>
                  (let total_sample_size = sum_list sample_sizes
                   in case map_raise (proportion total_sample_size) sample_sizes of
                        Inl e \<Rightarrow> Inl e
                      | Inr proportions \<Rightarrow>
                          (let organisations = sort (map fst latest)
                           in Inr (Some
                                \<lparr>bar_data =
                                   map (\<lambda>(i, org). bar_trace_of text sample_sizes proportions i org)
                                     (enumerate 0 organisations),
                                 bar_title = ''Number of '' @ text @ ''s per organisation'',
                                 bar_annotations =
                                   map (annotation_of sample_sizes proportions)
                                     [0..<length organisations]\<rparr>)))))
      else Inr None)"

section \<open>Donut chart\<close>

record donut_figure =
  donut_labels :: "string list"
  donut_values :: "int list"
  donut_hovertemplate :: string
  donut_title :: string

text \<open>\<open>country_data[data["country"]] += int(data["sample_size"])\<close> on a
  \<open>defaultdict(int)\<close>, for each record in turn.\<close>

fun country_totals :: "(string, int) dict \<Rightarrow> organisation_data list \<Rightarrow> error + (string, int) dict" where
  "country_totals country_data [] = Inr country_data"
| "country_totals country_data (data # rest) =
     (case country data of
        None \<Rightarrow> Inl KeyError
      | Some c \<Rightarrow>
          (case sample_size_of data of
             Inl e \<Rightarrow> Inl e
           | Inr n \<Rightarrow> country_totals (map_default c n (\<lambda>v. v + n) country_data) rest))"

text \<open>\<open>labels, sample_sizes = zip(*sorted(items))\<close>: with no item there is nothing to
  unpack, which is a ValueError.\<close>

definition unzip_sorted :: "(string, int) dict \<Rightarrow> error + string list \<times> int list" where
  "unzip_sorted items =
     (if items = [] then Inl ValueError
      else (let s = sort_key fst items in Inr (map fst s, map snd s)))"

definition generate_donut_chart ::
  "descriptive_data \<Rightarrow> string \<Rightarrow> string \<Rightarrow> error + donut_figure option" where
  "generate_donut_chart descriptive_data text chart_type =
     (if descriptive_data \<noteq> [] then
        (case latest_data descriptive_data of
           Inl e \<Rightarrow> Inl e
         | Inr latest \<Rightarrow>
             (case
                (if chart_type = ''organisation'' then
                   (case map_raise sample_size_of (map snd latest) of
                      Inl e \<Rightarrow> Inl e
                    | Inr sample_sizes \<Rightarrow>
                        Inr (sort (map fst latest), sample_sizes, text @ ''s per organisation''))
                 else if chart_type = ''country'' then
                   (case country_totals [] (map snd latest) of
                      Inl e \<Rightarrow> Inl e
                    | Inr country_data \<Rightarrow>
                        (case unzip_sorted country_data of
                           Inl e \<Rightarrow> Inl e
                         | Inr (labels, sample_sizes) \<Rightarrow>
                             Inr (labels, sample_sizes, text @ ''s per country'')))
                 else Inl UnboundLocalError)
              of
                Inl e \<Rightarrow> Inl e
              | Inr (labels, sample_sizes, title) \<Rightarrow>
                  Inr (Some
                    \<lparr>donut_labels = labels,
                     donut_values = sample_sizes,
                     donut_hovertemplate =
                       ''<b>%{label}</b><br>Available '' @ text @ '' data: <b>%{value}</b><br>''
                       @ ''Proportion of all available '' @ text @ '' data: <b>%{percent}</b>'',
                     donut_title = title\<rparr>)))
      else Inr None)"

section \<open>String operations of the availability table\<close>

definition startswith :: "string \<Rightarrow> string \<Rightarrow> bool" where
  "startswith s p = (take (length p) s = p)"

text \<open>\<open>sub in s\<close>.\<close>

fun contains :: "string \<Rightarrow> string \<Rightarrow> bool" where
  "contains [] sub = (sub = [])"
| "contains (c # cs) sub = (startswith (c # cs) sub \<or> contains cs sub)"

text \<open>\<open>s.replace(old, new)\<close>: every occurrence, left to right, without overlap; \<open>k\<close>
  counts the characters of a matched occurrence that are still to be skipped. An empty
  \<open>old\<close> matches before every character and at the end.\<close>

fun replace_skip :: "string \<Rightarrow> string \<Rightarrow> nat \<Rightarrow> string \<Rightarrow> string" where
  "replace_skip old new k [] = []"
| "replace_skip old new k (c # cs) =
     (if 0 < k then replace_skip old new (k - 1) cs
      else if startswith (c # cs) old then new @ replace_skip old new (length old - 1) cs
      else c # replace_skip old new 0 cs)"

definition replace :: "string \<Rightarrow> string \<Rightarrow> string \<Rightarrow> string" where
  "replace s old new =
     (if old = [] then new @ concat (map (\<lambda>c. c # new) s) else replace_skip old new 0 s)"

text \<open>\<open>s.title()\<close> on ASCII text: a letter that follows a letter is lowered, any other
  letter is raised. Bytes outside ASCII count as uncased.\<close>

definition is_lower :: "char \<Rightarrow> bool" where
  "is_lower c = (CHR ''a'' \<le> c \<and> c \<le> CHR ''z'')"

definition is_upper :: "char \<Rightarrow> bool" where
  "is_upper c = (CHR ''A'' \<le> c \<and> c \<le> CHR ''Z'')"

definition to_upper :: "char \<Rightarrow> char" where
  "to_upper c =
     (case map_of (zip ''abcdefghijklmnopqrstuvwxyz'' ''ABCDEFGHIJKLMNOPQRSTUVWXYZ'') c of
        None \<Rightarrow> c
      | Some u \<Rightarrow> u)"

definition to_lower :: "char \<Rightarrow> char" where
  "to_lower c =
     (case map_of (zip ''ABCDEFGHIJKLMNOPQRSTUVWXYZ'' ''abcdefghijklmnopqrstuvwxyz'') c of
        None \<Rightarrow> c
      | Some l \<Rightarrow> l)"

fun title_from :: "bool \<Rightarrow> string \<Rightarrow> string" where
  "title_from previous_is_cased [] = []"
| "title_from previous_is_cased (c # cs) =
     (if is_lower c then (if previous_is_cased then c else to_upper c) # title_from True cs
      else if is_upper c then (if previous_is_cased then to_lower c else c) # title_from True cs
      else c # title_from False cs)"

definition title :: "string \<Rightarrow> string" where
  "title s = title_from False s"

text \<open>\<open>sep.join(xs)\<close>.\<close>

fun join :: "string \<Rightarrow> string list \<Rightarrow> string" where
  "join sep [] = []"
| "join sep [x] = x"
| "join sep (x # y # ys) = x @ sep @ join sep (y # ys)"

text \<open>The two-space line break \<open>'  \n'\<close> of the markdown tooltips.\<close>

definition br :: string where
  "br = [CHR '' '', CHR '' '', CHR 0x0A]"

section \<open>The global schema\<close>

text \<open>
  \<open>global_schema_data['variable_info']\<close>: variable \<open>\<mapsto>\<close> \<open>{class, value_mapping: {terms: value
  \<mapsto> {target_class}}}\<close>. \<open>class\<close> and \<open>target_class\<close> are read with \<open>[...]\<close> (KeyError when
  absent), the other keys with \<open>.get\<close>.
\<close>

record term_info =
  target_class :: "string option"

record value_mapping_info =
  terms :: "(string, term_info) dict option"

record schema_variable =
  var_class :: "string option"
  value_mapping :: "value_mapping_info option"

record global_schema =
  schema_variable_info :: "(string, schema_variable) dict option"

definition prefixes :: "(string, string) dict" where
  "prefixes = [(''ncit'', ''http://ncicb.nci.nih.gov/xml/owl/EVS/Thesaurus.owl#''),
               (''sct'', ''http://snomed.info/sct'')]"

text \<open>The loop \<open>for prefix, uri in prefixes.items(): if prefix + ":" in s: s = s.replace(prefix
  + ":", uri); break\<close>.\<close>

fun expand_prefix :: "(string, string) dict \<Rightarrow> string \<Rightarrow> string" where
  "expand_prefix [] s = s"
| "expand_prefix ((p, uri) # ps) s =
     (if contains s (p @ '':'') then replace s (p @ '':'') uri else expand_prefix ps s)"

text \<open>The loop \<open>for prefix, uri in prefixes.items(): if uri in s: s = s.replace(uri, prefix +
  ":"); break\<close> of the tooltips.\<close>

fun contract_prefix :: "(string, string) dict \<Rightarrow> string \<Rightarrow> string" where
  "contract_prefix [] s = s"
| "contract_prefix ((p, uri) # ps) s =
     (if contains s uri then replace s uri (p @ '':'') else contract_prefix ps s)"

text \<open>
  \<open>_variable_info\<close>, the deep copy with the prefixes expanded. Once the loop that builds it
  has passed, every variable has its \<open>class\<close> and every term its \<open>target_class\<close>, so the
  copy is a record without optional fields; \<open>copy_terms\<close> is empty when \<open>value_mapping\<close> is
  absent or empty or has no \<open>terms\<close>, the cases in which the source iterates over nothing.
\<close>

record variable_copy =
  copy_class :: string
  copy_terms :: "(string, string) dict"

definition copy_term :: "string \<times> term_info \<Rightarrow> error + string \<times> string" where
  "copy_term kv =
     (case target_class (snd kv) of
        None \<Rightarrow> Inl KeyError
      | Some t \<Rightarrow> Inr (fst kv, expand_prefix prefixes t))"

definition terms_of :: "schema_variable \<Rightarrow> (string, term_info) dict" where
  "terms_of info =
     (case value_mapping info of
        None \<Rightarrow> []
      | Some vm \<Rightarrow> (case terms vm of None \<Rightarrow> [] | Some ts \<Rightarrow> ts))"

definition copy_variable :: "string \<times> schema_variable \<Rightarrow> error + string \<times> variable_copy" where
  "copy_variable kv =
     (case var_class (snd kv) of
        None \<Rightarrow> Inl KeyError
      | Some c \<Rightarrow>
          (case map_raise copy_term (terms_of (snd kv)) of
             Inl e \<Rightarrow> Inl e
           | Inr ts \<Rightarrow> Inr (fst kv, \<lparr>copy_class = expand_prefix prefixes c, copy_terms = ts\<rparr>)))"

section \<open>The availability table\<close>

text \<open>
  A row of \<open>df_rows\<close> is a dict from column name to a string or a count; a row of
  \<open>tooltips\<close> is a dict from column name to markdown text. Counts are unbounded integers,
  so \<open>int(...)\<close> on a count is the identity.
\<close>

datatype cell = StrC string | IntC int

type_synonym row = "(string, cell) dict"
type_synonym tooltip_row = "(string, string) dict"

text \<open>The record of the \<open>except KeyError\<close> branch.\<close>

definition fallback_info :: local_variable_info where
  "fallback_info =
     \<lparr>main_class = Some [], main_class_count = Some 0,
      sub_class = Some [], sub_class_count = Some 0\<rparr>"

text \<open>
  \<open>_org_variable_info\<close> for one organisation: the entries of its \<open>variable_info\<close> whose
  \<open>main_class\<close> is the class of the variable, or the fallback record when the key
  \<open>variable_info\<close> is missing.
\<close>

definition org_variable_info_of :: "string \<Rightarrow> organisation_data \<Rightarrow> local_variable_info list" where
  "org_variable_info_of cls data =
     (case variable_info data of
        None \<Rightarrow> [fallback_info]
      | Some infos \<Rightarrow> filter (\<lambda>local_variable_info. main_class local_variable_info = Some cls) infos)"

text \<open>\<open>info.get('main_class') == cls and info.get('sub_class') == sub\<close>.\<close>

definition matches :: "string \<Rightarrow> string \<Rightarrow> local_variable_info \<Rightarrow> bool" where
  "matches cls sub info = (main_class info = Some cls \<and> sub_class info = Some sub)"

text \<open>\<open>info.get('main_class_count', 0)\<close> and \<open>info.get('sub_class_count', 0)\<close>.\<close>

definition main_count :: "local_variable_info \<Rightarrow> int" where
  "main_count info = (case main_class_count info of None \<Rightarrow> 0 | Some n \<Rightarrow> n)"

definition sub_count :: "local_variable_info \<Rightarrow> int" where
  "sub_count info = (case sub_class_count info of None \<Rightarrow> 0 | Some n \<Rightarrow> n)"

text \<open>The loop \<open>for info_list in org_variable_info.values(): for info in info_list: if
  ...: total_count += ...\<close>.\<close>

definition total_count ::
  "(local_variable_info \<Rightarrow> bool) \<Rightarrow> (local_variable_info \<Rightarrow> int) \<Rightarrow>
   (string, local_variable_info list) dict \<Rightarrow> int" where
  "total_count matching cnt org_variable_info =
     sum_list (map (\<lambda>info_list. sum_list (map cnt (filter matching info_list)))
                   (map snd org_variable_info))"

text \<open>
  The inner loop over one organisation's \<open>info_list\<close>: the first matching entry sets the
  cell and the tooltip and ends the loop (\<open>break\<close>); every entry before it sets the cell
  to 0. The pair is \<open>(row, tooltip_row)\<close>.
\<close>

fun scan_info_list ::
  "(local_variable_info \<Rightarrow> bool) \<Rightarrow> (local_variable_info \<Rightarrow> int) \<Rightarrow> (int \<Rightarrow> string) \<Rightarrow> string \<Rightarrow>
   string \<Rightarrow> local_variable_info list \<Rightarrow> row \<times> tooltip_row \<Rightarrow> row \<times> tooltip_row" where
  "scan_info_list matching cnt found missing organisation [] rt = rt"
| "scan_info_list matching cnt found missing organisation (info # rest) rt =
     (if matching info then
        (AList.update organisation (IntC (cnt info)) (fst rt),
         AList.update organisation (found (cnt info)) (snd rt))
      else
        scan_info_list matching cnt found missing organisation rest
          (AList.update organisation (IntC 0) (fst rt),
           AList.update organisation missing (snd rt)))"

text \<open>The body of \<open>for organisation, info_list in org_variable_info.items()\<close>.\<close>

definition fill_organisation ::
  "(local_variable_info \<Rightarrow> bool) \<Rightarrow> (local_variable_info \<Rightarrow> int) \<Rightarrow> (string \<Rightarrow> int \<Rightarrow> string) \<Rightarrow>
   (string \<Rightarrow> string) \<Rightarrow> row \<times> tooltip_row \<Rightarrow> string \<times> local_variable_info list \<Rightarrow>
   row \<times> tooltip_row" where
  "fill_organisation matching cnt found missing rt item =
     (let organisation = fst item; info_list = snd item
      in if info_list \<noteq> [] then
           scan_info_list matching cnt (found organisation) (missing organisation)
             organisation info_list rt
         else
           (AList.update organisation (IntC 0) (fst rt),
            AList.update organisation (missing organisation) (snd rt)))"

definition total_column :: "string \<Rightarrow> string" where
  "total_column text = ''Total '' @ text @ ''s''"

text \<open>The row of a variable and its tooltip row.\<close>

definition variable_row ::
  "string \<Rightarrow> string \<Rightarrow> string \<Rightarrow> (string, local_variable_info list) dict \<Rightarrow> row \<times> tooltip_row" where
  "variable_row text variable cls org_variable_info =
     (let shown = replace variable ''_'' '' '';
          matching = matches cls cls;
          row = [(''Variables'', StrC (title shown)), (''Values'', StrC []),
                 (total_column text, IntC (total_count matching main_count org_variable_info))];
          org_data =
            concat (map (\<lambda>(org, info_list).
                      case info_list of
                        [] \<Rightarrow> []
                      | first # _ \<Rightarrow>
                          if list_ex matching info_list
                          then [org @ '': __'' @ str_int (main_count first) @ ''__'']
                          else [])
                    org_variable_info);
          org_data_str =
            (if org_data \<noteq> [] then
               ''__'' @ title shown @ ''__'' @ br @ ''Available '' @ text
               @ '' data per organisation'' @ br @ join br org_data
             else
               ''No '' @ text @ ''s with information on __'' @ shown
               @ ''__ appear to be available.'');
          tooltip_row =
            [(''Variables'',
              contract_prefix prefixes
                (''__'' @ title shown @ ''__'' @ br @ ''Associated class: '' @ cls)),
             (''Values'', []),
             (total_column text, org_data_str)]
      in foldl
           (fill_organisation matching main_count
              (\<lambda>organisation n.
                 ''__'' @ str_int n @ ''__ '' @ text @ ''s in '' @ organisation
                 @ '' have information on __'' @ shown @ ''__.'')
              (\<lambda>organisation.
                 ''Data for __'' @ shown @ ''__ appears unavailable for '' @ organisation @ ''.''))
           (row, tooltip_row) org_variable_info)"

text \<open>The row of one value of a variable and its tooltip row.\<close>

definition value_row ::
  "string \<Rightarrow> string \<Rightarrow> string \<Rightarrow> (string, local_variable_info list) dict \<Rightarrow> string \<times> string \<Rightarrow>
   row \<times> tooltip_row" where
  "value_row text variable cls org_variable_info value_item =
     (let val = fst value_item; target = snd value_item;
          shown = replace variable ''_'' '' '';
          shown_value = replace val ''_'' '' '';
          matching = matches cls target;
          row = [(''Variables'', StrC []), (''Values'', StrC (title shown_value)),
                 (total_column text, IntC (total_count matching sub_count org_variable_info))];
          org_data =
            concat (map (\<lambda>(org, info_list).
                      map (\<lambda>info. org @ '': __'' @ str_int (sub_count info) @ ''__'')
                        (filter matching info_list))
                    org_variable_info);
          org_data_str =
            (if org_data \<noteq> [] then
               title shown @ '' - __'' @ title shown_value @ ''__'' @ br @ ''Available '' @ text
               @ '' data per organisation'' @ br @ join br org_data
             else
               ''No '' @ text @ ''s with __'' @ shown_value @ ''__ for '' @ shown
               @ '' appear to be available.'');
          tooltip_row =
            [(''Variables'', []),
             (''Values'',
              contract_prefix prefixes
                (title shown @ '' - __'' @ title shown_value @ ''__'' @ br
                 @ ''Associated class: '' @ target)),
             (total_column text, org_data_str)]
      in foldl
           (fill_organisation matching sub_count
              (\<lambda>organisation n.
                 ''__'' @ str_int n @ ''__ '' @ text @ ''s in '' @ organisation @ '' have __''
                 @ shown_value @ ''__ as '' @ shown @ ''.'')
              (\<lambda>organisation.
                 ''No '' @ text @ ''s that have __'' @ shown_value @ ''__ as '' @ shown
                 @ '' appear available in '' @ organisation @ ''.''))
           (row, tooltip_row) org_variable_info)"

text \<open>
  One pass of \<open>for variable in variable_info.keys()\<close>: \<open>org_variable_info\<close> is built over
  the organisations of the snapshot, then the variable's row and the rows of its values
  are appended.
\<close>

definition rows_of_variable ::
  "string \<Rightarrow> snapshot \<Rightarrow> string \<times> variable_copy \<Rightarrow> (row \<times> tooltip_row) list" where
  "rows_of_variable text descriptive_data_most_recent item =
     (let variable = fst item; cls = copy_class (snd item);
          org_variable_info =
            map (\<lambda>(organisation, data). (organisation, org_variable_info_of cls data))
              descriptive_data_most_recent
      in variable_row text variable cls org_variable_info
         # map (value_row text variable cls org_variable_info) (copy_terms (snd item)))"

text \<open>
  \<open>display_df\<close>: in the columns after the third, a positive count becomes a check mark
  and any other count a cross (UTF-8 bytes of U+2714 and U+2716). Comparing a string with
  0 is a TypeError.
\<close>

definition check_mark :: string where
  "check_mark = [CHR 0xE2, CHR 0x9C, CHR 0x94]"

definition cross_mark :: string where
  "cross_mark = [CHR 0xE2, CHR 0x9C, CHR 0x96]"

definition display_cell :: "string \<times> cell \<Rightarrow> error + string \<times> cell" where
  "display_cell kc =
     (case snd kc of
        IntC n \<Rightarrow> Inr (fst kc, StrC (if n > 0 then check_mark else cross_mark))
      | StrC s \<Rightarrow> Inl TypeError)"

definition display_row :: "row \<Rightarrow> error + row" where
  "display_row r =
     (case map_raise display_cell (drop 3 r) of
        Inl e \<Rightarrow> Inl e
      | Inr cells \<Rightarrow> Inr (take 3 r @ cells))"

text \<open>\<open>pd.DataFrame(df_rows).columns\<close>; every row of \<open>df_rows\<close> has the same keys in the
  same order.\<close>

definition df_columns :: "row list \<Rightarrow> string list" where
  "df_columns rows = (case rows of [] \<Rightarrow> [] | r # _ \<Rightarrow> map fst r)"

text \<open>
  \<open>create_data_table\<close>: the column ids, the records and the tooltips of the DataTable;
  the style constants are left out, except that the cell width divides 100 by the number
  of columns.
\<close>

record data_table =
  table_columns :: "string list"
  table_data :: "row list"
  tooltip_data :: "(string, string option) dict list"

definition create_data_table :: "string list \<Rightarrow> row list \<Rightarrow> tooltip_row list \<Rightarrow> error + data_table" where
  "create_data_table columns records tooltips =
     (if length columns = 0 then Inl ZeroDivisionError
      else Inr \<lparr>table_columns = columns,
                table_data = records,
                tooltip_data =
                  map (\<lambda>tooltip. map (\<lambda>column. (column, map_of tooltip column)) columns)
                    tooltips\<rparr>)"

text \<open>
  \<open>datetime.fromisoformat\<close> belongs to the Python library; the function takes it as the
  parameter \<open>fromisoformat\<close>, into any linearly ordered type of instants, with ValueError
  for a string it rejects.
\<close>

definition most_recent ::
  "(string \<Rightarrow> error + 't::linorder) \<Rightarrow> descriptive_data \<Rightarrow> error + snapshot" where
  "most_recent fromisoformat descriptive_data =
     (case py_max_key fromisoformat (map fst descriptive_data) of
        Inl e \<Rightarrow> Inl e
      | Inr most_recent_timestamp \<Rightarrow> getitem descriptive_data most_recent_timestamp)"

definition generate_fair_data_availability ::
  "(string \<Rightarrow> error + 't::linorder) \<Rightarrow> global_schema \<Rightarrow> descriptive_data \<Rightarrow> string \<Rightarrow>
   error + row list \<times> data_table" where
  "generate_fair_data_availability fromisoformat global_schema_data descriptive_data text =
     (let variable_info =
            (case schema_variable_info global_schema_data of None \<Rightarrow> [] | Some v \<Rightarrow> v)
      in case most_recent fromisoformat descriptive_data of
           Inl e \<Rightarrow> Inl e
         | Inr descriptive_data_most_recent \<Rightarrow>
             (case map_raise copy_variable variable_info of
                Inl e \<Rightarrow> Inl e
              | Inr copied \<Rightarrow>
                  (let rows_tooltips =
                         concat (map (rows_of_variable text descriptive_data_most_recent) copied);
                       df_rows = map fst rows_tooltips;
                       tooltips = map snd rows_tooltips
                   in case map_raise display_row df_rows of
                        Inl e \<Rightarrow> Inl e
                      | Inr display_df \<Rightarrow>
                          (case create_data_table (df_columns display_df) display_df tooltips of
                             Inl e \<Rightarrow> Inl e
                           | Inr table \<Rightarrow> Inr (df_rows, table)))))"

section \<open>The completeness chart\<close>

text \<open>
  \<open>generate_completeness_chart\<close> reads the availability table back from JSON. The model
  starts from the parsed frame: the columns \<open>Variables\<close> and \<open>Values\<close>, then the count
  columns \<open>columns[2:]\<close> (the total column and one column per organisation); a row is its
  variable name, its value name and its counts in column order. The pandas operations are
  modelled on frames whose variable names are distinct, whose column names are distinct
  and whose rows have one count per count column.
\<close>

record availability_frame =
  count_columns :: "string list"
  frame_rows :: "(string \<times> string \<times> int list) list"

text \<open>\<open>_initial_df_copy[_initial_df_copy['Variables'] != ''].drop('Values', axis=1)\<close>.\<close>

definition available_rows :: "(string \<times> string \<times> int list) list \<Rightarrow> (string, int list) dict" where
  "available_rows rows =
     map (\<lambda>(variable, val, counts). (variable, counts))
       (filter (\<lambda>(variable, val, counts). variable \<noteq> []) rows)"

text \<open>\<open>initial_df['Variables'].replace('', np.nan).ffill()\<close>: an empty name takes the last
  name above it, and stays missing (\<open>None\<close>) when there is none.\<close>

fun ffill ::
  "string option \<Rightarrow> (string \<times> string \<times> int list) list \<Rightarrow> (string option \<times> string \<times> int list) list" where
  "ffill previous [] = []"
| "ffill previous ((variable, val, counts) # rest) =
     (let current = (if variable = [] then previous else Some variable)
      in (current, val, counts) # ffill current rest)"

text \<open>The rows with a value name, keyed by the filled variable name; \<open>groupby\<close> drops
  the rows whose key is missing.\<close>

definition value_rows :: "(string option \<times> string \<times> int list) list \<Rightarrow> (string \<times> int list) list" where
  "value_rows filled =
     concat (map (\<lambda>(variable, val, counts).
               case variable of
                 None \<Rightarrow> []
               | Some v \<Rightarrow> if val \<noteq> [] then [(v, counts)] else [])
             filled)"

text \<open>
  \<open>groupby('Variables')[column].sum()\<close> for each count column, joined on \<open>Variables\<close>:
  one row per variable name, in sorted order of the names, with the sum of every count
  column over the rows of the group.
\<close>

definition group_sums :: "nat \<Rightarrow> (string \<times> int list) list \<Rightarrow> (string, int list) dict" where
  "group_sums n rows =
     map (\<lambda>name.
            (name,
             map (\<lambda>i. sum_list (map (\<lambda>counts. counts ! i)
                                  (map snd (filter (\<lambda>r. fst r = name) rows))))
                 [0..<n]))
       (sort (remdups (map fst rows)))"

text \<open>A label missing from one side of \<open>subtract(..., fill_value=0)\<close> counts as zeros.\<close>

definition counts_of :: "nat \<Rightarrow> (string, int list) dict \<Rightarrow> string \<Rightarrow> int list" where
  "counts_of n frame name = (case map_of frame name of None \<Rightarrow> replicate n 0 | Some c \<Rightarrow> c)"

text \<open>
  The index of the difference: the two indexes are aligned by an outer join, which gives
  the sorted union of the names, except that an empty left index leaves the right index
  as it is.
\<close>

definition aligned_index :: "(string, int list) dict \<Rightarrow> (string, int list) dict \<Rightarrow> string list" where
  "aligned_index grouped available =
     (if grouped = [] then map fst available
      else sort (remdups (map fst grouped @ map fst available)))"

text \<open>\<open>unavailable_df\<close> after the subtraction and \<open>clip(upper=0).abs()\<close>.\<close>

definition unavailable_frame ::
  "nat \<Rightarrow> (string, int list) dict \<Rightarrow> (string, int list) dict \<Rightarrow> (string, int list) dict" where
  "unavailable_frame n grouped available =
     map (\<lambda>name.
            (name, map2 (\<lambda>s a. \<bar>min (s - a) 0\<bar>) (counts_of n grouped name) (counts_of n available name)))
       (aligned_index grouped available)"

text \<open>\<open>available_variable_counts_df\<close> after the second subtraction.\<close>

definition available_frame ::
  "nat \<Rightarrow> (string, int list) dict \<Rightarrow> (string, int list) dict \<Rightarrow> (string, int list) dict" where
  "available_frame n available unavailable =
     map (\<lambda>name.
            (name, map2 (\<lambda>a u. a - u) (counts_of n available name) (counts_of n unavailable name)))
       (map fst unavailable)"

text \<open>The position of a column among the count columns.\<close>

fun column_index :: "string \<Rightarrow> string list \<Rightarrow> nat option" where
  "column_index c [] = None"
| "column_index c (x # xs) =
     (if x = c then Some 0 else map_option Suc (column_index c xs))"

text \<open>
  The order of the count columns after the subtractions: unchanged when both frames have
  the same columns; when no row has a value name, \<open>unavailable_df\<close> enters with the last
  count column alone and the outer join of the columns sorts them.
\<close>

definition aligned_columns :: "(string, int list) dict \<Rightarrow> string list \<Rightarrow> string list" where
  "aligned_columns grouped cols = (if grouped = [] \<and> 2 \<le> length cols then sort cols else cols)"

text \<open>
  The share of one column in a hover text, \<open>int(counts[org][row['Variables'].title()])\<close>:
  the count of the column \<open>org\<close> in the row whose name is the title-cased name of the
  current row; KeyError when there is no such row. \<open>org\<close> ranges over the columns of the
  frame after the renaming of the total column, so that column appears under its new
  name, \<open>Total available {text}s\<close> or \<open>Total unavailable {text}s\<close>.
\<close>

definition renamed :: "string \<Rightarrow> string \<Rightarrow> string \<Rightarrow> string" where
  "renamed which text column =
     (if column = total_column text then ''Total '' @ which @ '' '' @ text @ ''s'' else column)"

definition share ::
  "string \<Rightarrow> string \<Rightarrow> string list \<Rightarrow> (string, int list) dict \<Rightarrow> string \<Rightarrow> string \<Rightarrow>
   error + string" where
  "share which text cols frame name org =
     (case map_of frame (title name) of
        None \<Rightarrow> Inl KeyError
      | Some counts \<Rightarrow>
          (case column_index org cols of
             None \<Rightarrow> Inl KeyError
           | Some i \<Rightarrow>
               Inr (renamed which text org @ '': <b>'' @ str_int (counts ! i) @ ''</b>'')))"

definition hover ::
  "string \<Rightarrow> string \<Rightarrow> string \<Rightarrow> string list \<Rightarrow> string list \<Rightarrow> (string, int list) dict \<Rightarrow>
   string \<times> int \<Rightarrow> error + string" where
  "hover kind which text cols orgs frame item =
     (case map_raise (share which text cols frame (fst item)) orgs of
        Inl e \<Rightarrow> Inl e
      | Inr shares \<Rightarrow>
          Inr (''<extra></extra><b>'' @ fst item @ ''</b><br>Total '' @ kind
               @ '' information: <b>'' @ str_int (snd item) @ ''</b> '' @ text
               @ ''s<br><br>Share per organisation<br>'' @ join ''<br>'' shares))"

record stacked_bar =
  trace_name :: string
  trace_x :: "string list"
  trace_y :: "int list"
  trace_hovertemplate :: "string list"

record completeness_figure =
  complete_information :: stacked_bar
  incomplete_information :: stacked_bar
  yaxis_title :: string

text \<open>
  The function: the two frames, the merge on \<open>Variables\<close> that keeps the two total
  columns (KeyError when no count column is named \<open>Total {text}s\<close>, which includes the
  frame without count columns), and the two bars with their hover texts. The layout
  constants are left out.
\<close>

definition generate_completeness_chart ::
  "availability_frame \<Rightarrow> string \<Rightarrow> error + completeness_figure" where
  "generate_completeness_chart availability_data text =
     (let cols = count_columns availability_data;
          n = length cols;
          available = available_rows (frame_rows availability_data);
          grouped = group_sums n (value_rows (ffill None (frame_rows availability_data)));
          unavailable_df = unavailable_frame n grouped available;
          available_variable_counts_df = available_frame n available unavailable_df
      in case column_index (total_column text) cols of
           None \<Rightarrow> Inl KeyError
         | Some t \<Rightarrow>
             (let names = map fst unavailable_df;
                  total_unavailable = map (\<lambda>(name, counts). counts ! t) unavailable_df;
                  total_available =
                    map (\<lambda>name. counts_of n available_variable_counts_df name ! t) names;
                  orgs = drop 1 (aligned_columns grouped cols)
              in case map_raise (hover ''complete'' ''available'' text cols orgs
                          available_variable_counts_df)
                        (zip names total_available) of
                   Inl e \<Rightarrow> Inl e
                 | Inr complete_hover \<Rightarrow>
                     (case map_raise (hover ''incomplete'' ''unavailable'' text cols orgs
                               unavailable_df)
                             (zip names total_unavailable) of
                        Inl e \<Rightarrow> Inl e
                      | Inr incomplete_hover \<Rightarrow>
                          Inr \<lparr>complete_information =
                                 \<lparr>trace_name = ''Complete information'', trace_x = names,
                                  trace_y = total_available,
                                  trace_hovertemplate = complete_hover\<rparr>,
                               incomplete_information =
                                 \<lparr>trace_name = ''Incomplete information'', trace_x = names,
                                  trace_y = total_unavailable,
                                  trace_hovertemplate = incomplete_hover\<rparr>,
                               yaxis_title = ''Total number of '' @ text @ ''s''\<rparr>)))"

section \<open>A reading of ISO timestamps with an offset\<close>

text \<open>
  \<open>fromisoformat_offset\<close> stands for \<open>datetime.fromisoformat\<close> on the strings of the shape
  \<open>YYYY-MM-DDTHH:MM:SS+HH:MM\<close> (or with \<open>-HH:MM\<close>): it gives the seconds from
  0001-01-01T00:00:00 UTC, the quantity by which Python orders two datetimes that carry
  an offset. Strings of any other shape are rejected here, although the library accepts
  some of them; the function is used only to evaluate concrete inputs of this shape.
\<close>

definition digit_value :: "char \<Rightarrow> int option" where
  "digit_value c =
     (if CHR ''0'' \<le> c \<and> c \<le> CHR ''9'' then Some (of_char c - 48) else None)"

fun number_from :: "int \<Rightarrow> string \<Rightarrow> int option" where
  "number_from acc [] = Some acc"
| "number_from acc (c # cs) =
     (case digit_value c of None \<Rightarrow> None | Some d \<Rightarrow> number_from (10 * acc + d) cs)"

definition field :: "nat \<Rightarrow> nat \<Rightarrow> string \<Rightarrow> int option" where
  "field start len s = number_from 0 (take len (drop start s))"

definition is_leap :: "int \<Rightarrow> bool" where
  "is_leap y = (y mod 4 = 0 \<and> (y mod 100 \<noteq> 0 \<or> y mod 400 = 0))"

definition days_in_month :: "int \<Rightarrow> int \<Rightarrow> int" where
  "days_in_month y m =
     (if m = 2 then (if is_leap y then 29 else 28)
      else if m = 4 \<or> m = 6 \<or> m = 9 \<or> m = 11 then 30 else 31)"

definition days_before_year :: "int \<Rightarrow> int" where
  "days_before_year y = (y - 1) * 365 + (y - 1) div 4 - (y - 1) div 100 + (y - 1) div 400"

definition days_before_month :: "int \<Rightarrow> int \<Rightarrow> int" where
  "days_before_month y m =
     [0, 31, 59, 90, 120, 151, 181, 212, 243, 273, 304, 334] ! nat (m - 1)
     + (if 2 < m \<and> is_leap y then 1 else 0)"

definition fromisoformat_offset :: "string \<Rightarrow> error + int" where
  "fromisoformat_offset s =
     (if length s = 25 \<and> s ! 4 = CHR ''-'' \<and> s ! 7 = CHR ''-'' \<and> s ! 10 = CHR ''T''
         \<and> s ! 13 = CHR '':'' \<and> s ! 16 = CHR '':''
         \<and> (s ! 19 = CHR ''+'' \<or> s ! 19 = CHR ''-'') \<and> s ! 22 = CHR '':'' then
        (case (field 0 4 s, field 5 2 s, field 8 2 s, field 11 2 s, field 14 2 s,
               field 17 2 s, field 20 2 s, field 23 2 s) of
           (Some y, Some m, Some d, Some hh, Some mm, Some ss, Some oh, Some om) \<Rightarrow>
             if 1 \<le> y \<and> 1 \<le> m \<and> m \<le> 12 \<and> 1 \<le> d \<and> d \<le> days_in_month y m
                \<and> hh < 24 \<and> mm < 60 \<and> ss < 60 \<and> oh < 24 \<and> om < 60 then
               (let local_seconds =
                      (days_before_year y + days_before_month y m + d - 1) * 86400
                      + hh * 3600 + mm * 60 + ss;
                    offset = oh * 3600 + om * 60
                in Inr (if s ! 19 = CHR ''+'' then local_seconds - offset
                        else local_seconds + offset))
             else Inl ValueError
         | _ \<Rightarrow> Inl ValueError)
      else Inl ValueError)"

section \<open>Selecting the latest snapshot\<close>

lemma max_from_eq_Max: "max_from m xs = Max (set (m # xs))"
proof (induction xs arbitrary: m)
  case Nil
  then show ?case by simp
next
  case (Cons x xs)
  have "max_from m (x # xs) = max_from (max m x) xs"
    by (auto simp: max_def)
  also have "\<dots> = Max (set (max m x # xs))"
    by (rule Cons.IH)
  also have "\<dots> = Max (set (m # x # xs))"
    by (cases "xs = []") (simp_all add: Max_insert max.assoc)
  finally show ?case .
qed

lemma py_max_nonempty: "xs \<noteq> [] \<Longrightarrow> py_max xs = Inr (Max (set xs))"
  by (cases xs) (simp_all add: py_max_def max_from_eq_Max del: max_from.simps set_simps)

lemma getitem_member:
  "distinct (map fst d) \<Longrightarrow> (k, v) \<in> set d \<Longrightarrow> getitem d k = Inr v"
  by (simp add: getitem_def)

lemma getitem_key: "k \<in> fst ` set d \<Longrightarrow> \<exists>v. getitem d k = Inr v \<and> (k, v) \<in> set d"
proof -
  assume "k \<in> fst ` set d"
  then obtain v where "map_of d k = Some v"
    by (metis domD dom_map_of_conv_image_fst)
  then show ?thesis
    by (auto simp: getitem_def dest: map_of_SomeD)
qed

lemma latest_data_total:
  assumes "d \<noteq> []"
  shows "\<exists>s. latest_data d = Inr s \<and> (Max (fst ` set d), s) \<in> set d"
proof -
  have ne: "map fst d \<noteq> []" using assms by simp
  have "Max (set (map fst d)) \<in> set (map fst d)"
    using ne by (intro Max_in) simp_all
  then have "Max (fst ` set d) \<in> fst ` set d" by simp
  from getitem_key [OF this] py_max_nonempty [OF ne] show ?thesis
    by (auto simp: latest_data_def)
qed

lemma latest_data_empty: "latest_data [] = Inl ValueError"
  by (simp add: latest_data_def py_max_def)

lemma latest_data_maximal:
  assumes "distinct (map fst d)" "(k, s) \<in> set d" "\<forall>k' \<in> fst ` set d. k' \<le> k"
  shows "latest_data d = Inr s"
proof -
  have ne: "map fst d \<noteq> []" using assms(2) by auto
  have "Max (set (map fst d)) = k"
    using assms(2,3) by (intro Max_eqI) force+
  with py_max_nonempty [OF ne] getitem_member [OF assms(1,2)] show ?thesis
    by (simp add: latest_data_def)
qed

lemma map_raise_all_Inr:
  "(\<And>x. x \<in> set xs \<Longrightarrow> f x = Inr (g x)) \<Longrightarrow> map_raise f xs = Inr (map g xs)"
  by (induction xs) simp_all

section \<open>The organisation count\<close>

text \<open>
  Claim C7. For a non-empty \<open>descriptive_data\<close> (a dict, so its keys are distinct), let
  \<open>latest\<close> be the snapshot stored under the maximal timestamp key. The count reported by
  \<open>fetch_number_of_keys\<close> is the number of distinct organisation keys of \<open>latest\<close>, printed
  in decimal, followed by the line break and the text with its plural suffix.
\<close>

theorem fetch_number_of_keys_counts_latest:
  assumes "distinct (map fst descriptive_data)"
    and "(k, latest) \<in> set descriptive_data"
    and "\<forall>k' \<in> fst ` set descriptive_data. k' \<le> k"
    and "distinct (map fst latest)"
  shows "fetch_number_of_keys descriptive_data text
         = Inr (Some [Text (str_nat (card (fst ` set latest))), Br,
                      Text (text @ (if card (fst ` set latest) > 1 then ''s'' else ''''))])"
proof -
  have "latest_data descriptive_data = Inr latest"
    using assms(1-3) by (rule latest_data_maximal)
  moreover have "descriptive_data \<noteq> []" using assms(2) by auto
  moreover have "card (fst ` set latest) = length latest"
    using distinct_card [OF assms(4)] by simp
  ultimately show ?thesis
    by (simp add: fetch_number_of_keys_def)
qed

theorem fetch_number_of_keys_counts_latest_witness:
  "fetch_number_of_keys
      [(''2023-05-01'', [(''A'', \<lparr>sample_size = Some (5::int), country = Some ''NL'', variable_info = None\<rparr>)]),
       (''2024-01-01'', [(''B'', \<lparr>sample_size = Some 1, country = Some ''NL'', variable_info = None\<rparr>),
                         (''C'', \<lparr>sample_size = Some 2, country = Some ''BE'', variable_info = None\<rparr>)])]
      ''organisation''
     = Inr (Some [Text ''2'', Br, Text ''organisations''])"
proof -
  let ?latest = "[(''B'', \<lparr>sample_size = Some (1::int), country = Some ''NL'', variable_info = None\<rparr>),
                  (''C'', \<lparr>sample_size = Some 2, country = Some ''BE'', variable_info = None\<rparr>)]"
  let ?d = "[(''2023-05-01'', [(''A'', \<lparr>sample_size = Some (5::int), country = Some ''NL'', variable_info = None\<rparr>)]),
             (''2024-01-01'', ?latest)]"
  have h1: "distinct (map fst ?d)" by simp
  have h2: "(''2024-01-01'', ?latest) \<in> set ?d" by simp
  have h3: "\<forall>k' \<in> fst ` set ?d. k' \<le> ''2024-01-01''" by simp
  have h4: "distinct (map fst ?latest)" by simp
  have c: "card (fst ` set ?latest) = 2" by simp
  have s: "str_nat 2 = ''2''" by (simp add: str_nat.simps digit_char_def)
  show ?thesis
    using fetch_number_of_keys_counts_latest [OF h1 h2 h3 h4, of "''organisation''"]
    unfolding c s by simp
qed

section \<open>Empty input\<close>

text \<open>
  Claim C5. On the empty \<open>descriptive_data\<close> the three summary functions and the two
  chart builders return \<open>None\<close>: each of them starts with \<open>if descriptive_data:\<close>. The
  availability table builder has no such guard and takes \<open>max\<close> of the empty key
  sequence, which raises ValueError, for every schema, text and reading of timestamps.
\<close>

theorem empty_descriptive_data:
  "fetch_field_count [] field_name text = Inr None
   \<and> fetch_number_of_keys [] text = Inr None
   \<and> fetch_total_sample_size [] text = Inr None
   \<and> generate_sample_size_horizontal_bar [] text = Inr None
   \<and> generate_donut_chart [] text chart_type = Inr None
   \<and> generate_fair_data_availability fromisoformat global_schema_data [] text = Inl ValueError"
  by (simp add: fetch_field_count_def fetch_number_of_keys_def fetch_total_sample_size_def
      generate_sample_size_horizontal_bar_def generate_donut_chart_def
      generate_fair_data_availability_def most_recent_def py_max_key_def)

section \<open>Division by the total sample size\<close>

text \<open>
  Claim C9, as stated, at a non-empty \<open>descriptive_data\<close> whose latest snapshot holds no
  organisation: every organisation of that snapshot has sample size 0, no division takes
  place, and the bar chart is returned with no trace.
\<close>

theorem bar_chart_of_empty_snapshot:
  "generate_sample_size_horizontal_bar [(''2024-01-01'', [])] ''AYA''
   = Inr (Some \<lparr>bar_data = [], bar_title = ''Number of AYAs per organisation'',
                 bar_annotations = []\<rparr>)"
  by (simp add: generate_sample_size_horizontal_bar_def latest_data_def py_max_def getitem_def)

text \<open>
  Claim C9, amended. When the latest snapshot holds at least one organisation and every
  organisation in it has sample size 0, \<open>generate_sample_size_horizontal_bar\<close> raises
  ZeroDivisionError.
\<close>

theorem bar_chart_division_by_zero:
  assumes "latest_data descriptive_data = Inr latest"
    and "latest \<noteq> []"
    and "\<forall>data \<in> snd ` set latest. sample_size data = Some 0"
  shows "generate_sample_size_horizontal_bar descriptive_data text = Inl ZeroDivisionError"
proof -
  have ne: "descriptive_data \<noteq> []"
    using assms(1) by (auto simp: latest_data_empty)
  have sizes: "map_raise sample_size_of (map snd latest) = Inr (map (\<lambda>_. 0) (map snd latest))"
    using assms(3) by (intro map_raise_all_Inr) (auto simp: sample_size_of_def)
  have total: "sum_list (map (\<lambda>_. 0::int) (map snd latest)) = 0"
    by (induction latest) simp_all
  obtain x xs where "map (\<lambda>_. 0::int) (map snd latest) = x # xs"
    using assms(2) by (cases latest) auto
  then have "map_raise (proportion 0) (map (\<lambda>_. 0::int) (map snd latest)) = Inl ZeroDivisionError"
    by (simp add: proportion_def)
  with ne assms(1) sizes total show ?thesis
    by (simp add: generate_sample_size_horizontal_bar_def del: map_map)
qed

theorem bar_chart_division_by_zero_witness:
  "generate_sample_size_horizontal_bar
     [(''2024-01-01'', [(''A'', \<lparr>sample_size = Some 0, country = Some ''NL'', variable_info = None\<rparr>)])]
     ''AYA''
   = Inl ZeroDivisionError"
proof -
  have l: "latest_data [(''2024-01-01'', [(''A'', \<lparr>sample_size = Some 0, country = Some ''NL'', variable_info = None\<rparr>)])]
     = Inr [(''A'', \<lparr>sample_size = Some 0, country = Some ''NL'', variable_info = None\<rparr>)]"
    by (simp add: latest_data_def py_max_def getitem_def)
  show ?thesis
    using bar_chart_division_by_zero [OF l, of "''AYA''"] by simp
qed

section \<open>The chart type of the donut chart\<close>

text \<open>
  Claim C10. For a non-empty \<open>descriptive_data\<close> and a \<open>chart_type\<close> that is neither
  \<open>"organisation"\<close> nor \<open>"country"\<close>, \<open>generate_donut_chart\<close> reads \<open>labels\<close> before any
  assignment to it and fails with UnboundLocalError.
\<close>

theorem generate_donut_chart_unbound_local:
  assumes "descriptive_data \<noteq> []"
    and "chart_type \<noteq> ''organisation''" and "chart_type \<noteq> ''country''"
  shows "generate_donut_chart descriptive_data text chart_type = Inl UnboundLocalError"
proof -
  obtain s where "latest_data descriptive_data = Inr s"
    using latest_data_total [OF assms(1)] by blast
  with assms show ?thesis
    by (simp add: generate_donut_chart_def)
qed

theorem generate_donut_chart_unbound_local_witness:
  "generate_donut_chart [(''2024-01-01'', [])] ''AYA'' ''pie'' = Inl UnboundLocalError"
  using generate_donut_chart_unbound_local [of "[(''2024-01-01'', [])]" "''pie''" "''AYA''"]
  by simp

end
